theory Spec2Isabelle
  imports Main "HOL-Library.Sublist"
begin

section \<open>DexPack: the package installer of \<^verbatim>\<open>src/dexpack.py\<close>\<close>

text \<open>
  The module keeps two process-wide globals, \<^verbatim>\<open>verified\<close> (the one-shot confirmation
  flag) and \<^verbatim>\<open>verified_packages\<close> (the trust registry), and talks to four outside
  parties: the GitHub contents API (\<^verbatim>\<open>request_get\<close>), the local file system
  (\<^verbatim>\<open>rmtree\<close>), the chat context (\<^verbatim>\<open>ctx.send\<close>) and the bot's extension table
  (\<^verbatim>\<open>unload_extension\<close>). All of them are fields of one explicit \<open>world\<close> record that
  every command takes and returns; an exception that leaves a command is the outcome
  \<open>Raised e\<close>, returned together with the world as it was when the exception was
  raised.
\<close>

subsection \<open>Python values and exceptions\<close>

datatype error =
    NameError string
  | IndexError
  | KeyError
  | FileNotFoundError
  | NotADirectoryError
  | ExtensionNotLoaded string

datatype outcome = Returned | Raised error

text \<open>
  \<^verbatim>\<open>package_info\<close> is a list of strings on the URL path of \<^verbatim>\<open>install\<close> and a list of
  \<^verbatim>\<open>(key, value)\<close> tuples on the registry path, so its elements are a small sum type.
\<close>

datatype pyval = Str string | Tup string string

text \<open>\<^verbatim>\<open>s.startswith(p)\<close>.\<close>

definition startswith :: "string \<Rightarrow> string \<Rightarrow> bool" where
  "startswith s p = prefix p s"

text \<open>
  \<^verbatim>\<open>s.replace(old, new)\<close> for a non-empty \<^verbatim>\<open>old\<close>: every non-overlapping occurrence,
  scanning from the left.
\<close>

function py_replace :: "string \<Rightarrow> string \<Rightarrow> string \<Rightarrow> string" where
  "py_replace old new [] = []"
| "py_replace old new (c # cs) =
     (if old \<noteq> [] \<and> prefix old (c # cs)
      then new @ py_replace old new (drop (length old) (c # cs))
      else c # py_replace old new cs)"
  by pat_completeness auto
termination
  by (relation "measure (\<lambda>(old, new, s). length s)") (auto simp: neq_Nil_conv)

text \<open>\<^verbatim>\<open>s.split(d)\<close> for a one-character separator: never the empty list.\<close>

fun py_split :: "char \<Rightarrow> string \<Rightarrow> string list" where
  "py_split d [] = [[]]"
| "py_split d (c # cs) =
     (if c = d then [] # py_split d cs
      else (case py_split d cs of [] \<Rightarrow> [[c]] | w # ws \<Rightarrow> (c # w) # ws))"

text \<open>
  \<^verbatim>\<open>s.title()\<close> on ASCII text: a letter that follows a letter is lower-cased, any other
  letter is upper-cased, everything else is kept.
\<close>

definition is_lower :: "char \<Rightarrow> bool" where
  "is_lower c = (97 \<le> (of_char c :: nat) \<and> (of_char c :: nat) \<le> 122)"

definition is_upper :: "char \<Rightarrow> bool" where
  "is_upper c = (65 \<le> (of_char c :: nat) \<and> (of_char c :: nat) \<le> 90)"

definition to_upper :: "char \<Rightarrow> char" where
  "to_upper c = char_of ((of_char c :: nat) - 32)"

definition to_lower :: "char \<Rightarrow> char" where
  "to_lower c = char_of ((of_char c :: nat) + 32)"

fun title_from :: "bool \<Rightarrow> string \<Rightarrow> string" where
  "title_from previous_is_cased [] = []"
| "title_from previous_is_cased (c # cs) =
     (if is_lower c then (if previous_is_cased then c else to_upper c) # title_from True cs
      else if is_upper c then (if previous_is_cased then to_lower c else c) # title_from True cs
      else c # title_from False cs)"

definition title :: "string \<Rightarrow> string" where
  "title s = title_from False s"

subsection \<open>The data model\<close>

text \<open>
  A response of the contents API: the HTTP status and the text that
  \<^verbatim>\<open>b64decode(request.json()["content"]).decode("UTF-8")\<close> yields. The transport
  decoding is the library's, not the module's, and is not modelled further.
\<close>

record response =
  status_code :: nat
  content :: string

record embed =
  embed_title :: string
  embed_description :: string
  embed_color :: string
  embed_thumbnail :: "string option"
  embed_footer :: "string option"

text \<open>What the chat context has been asked to show, in order.\<close>

datatype message = Text string | EmbedMsg embed

text \<open>The file system: a path is absent, a directory, or a text file.\<close>

datatype node = Dir | File string

text \<open>What the bot has been asked to do with its extensions and its command tree.\<close>

datatype bot_call = Load string | Unload string | Sync

record world =
  verified :: bool
  verified_packages :: "string \<rightharpoonup> string"
  fs :: "string \<rightharpoonup> node"
  extensions :: "string set"
  bot_calls :: "bot_call list"
  sent :: "message list"
  reactions :: "string list"
  fetches :: "string list"

text \<open>
  What the module reads from outside: \<^verbatim>\<open>dir_type\<close>, fixed at import time from the
  working directory; \<^verbatim>\<open>settings.prefix\<close>, which comes from the host bot; and the remote
  API, as a function \<open>net\<close> of the URL.
\<close>

record env =
  dir_type :: string
  settings_prefix :: string
  net :: "string \<Rightarrow> response"

subsection \<open>The outside world's operations\<close>

definition ctx_send :: "message \<Rightarrow> world \<Rightarrow> world" where
  "ctx_send m w = w\<lparr>sent := sent w @ [m]\<rparr>"

text \<open>\<^verbatim>\<open>request_get(url)\<close>: every call is recorded in \<open>fetches\<close>.\<close>

definition request_get :: "env \<Rightarrow> string \<Rightarrow> world \<Rightarrow> response \<times> world" where
  "request_get e url w = (net e url, w\<lparr>fetches := fetches w @ [url]\<rparr>)"

text \<open>
  \<^verbatim>\<open>rmtree(path)\<close> removes a directory and everything below it; it raises
  \<^verbatim>\<open>FileNotFoundError\<close> when the path does not exist and \<^verbatim>\<open>NotADirectoryError\<close> when it is
  a file.
\<close>

definition rmtree :: "string \<Rightarrow> world \<Rightarrow> error + world" where
  "rmtree path w =
     (case fs w path of
        None \<Rightarrow> Inl FileNotFoundError
      | Some (File txt) \<Rightarrow> Inl NotADirectoryError
      | Some Dir \<Rightarrow>
          Inr (w\<lparr>fs := (\<lambda>p. if p = path \<or> prefix (path @ ''/'') p then None else fs w p)\<rparr>))"

text \<open>
  The bot's extension table: \<^verbatim>\<open>unload_extension\<close> raises \<^verbatim>\<open>ExtensionNotLoaded\<close> for a
  name that is not in it. Every request is recorded in \<open>bot_calls\<close>.
\<close>

definition unload_extension :: "string \<Rightarrow> world \<Rightarrow> outcome \<times> world" where
  "unload_extension ext w =
     (let w1 = w\<lparr>bot_calls := bot_calls w @ [Unload ext]\<rparr> in
      if ext \<in> extensions w then (Returned, w1\<lparr>extensions := extensions w - {ext}\<rparr>)
      else (Raised (ExtensionNotLoaded ext), w1))"

definition tree_sync :: "world \<Rightarrow> world" where
  "tree_sync w = w\<lparr>bot_calls := bot_calls w @ [Sync]\<rparr>"

subsection \<open>Message texts\<close>

definition NL :: string where
  "NL = [CHR 0x0A]"

definition TICK :: string where
  "TICK = [CHR 0x60]"

definition invalid_link_msg :: string where
  "invalid_link_msg = ''The link you sent is not a valid GitHub link.''"

definition caution_msg :: "env \<Rightarrow> string" where
  "caution_msg e =
     ''**CAUTION:** this package has not been verified. '' @
     ''Are you sure you want to install this package?'' @ NL @
     ''All packages you install can modify your Discord bot.'' @ NL @
     ''Run the '' @ TICK @ settings_prefix e @ ''verify'' @ TICK @ '' comamnd to verify '' @
     ''you want to install this package.''"

subsection \<open>\<^verbatim>\<open>verify_packages\<close> (lines 41-55, called once at import, line 358)\<close>

text \<open>
  The function binds the response to \<^verbatim>\<open>request\<close> and then tests \<^verbatim>\<open>r.status_code\<close>. No
  \<^verbatim>\<open>r\<close> is bound in the function, in the module or among the builtins, so evaluating
  the test raises \<^verbatim>\<open>NameError\<close> right after the request, whatever the response was.
  Neither the warning of line 47 nor the loop of lines 50-55 is ever reached (the loop
  would in turn split the boolean global \<^verbatim>\<open>verified\<close>, not the downloaded text).
\<close>

definition verify_packages :: "env \<Rightarrow> world \<Rightarrow> outcome \<times> world" where
  "verify_packages e w =
     (let (request, w1) =
            request_get e ''https://api.github.com/repos/Dotsian/DexPack/contents/verified.txt'' w
      in (Raised (NameError ''r''), w1))"

subsection \<open>\<^verbatim>\<open>verify\<close> (lines 182-191)\<close>

definition verify :: "world \<Rightarrow> outcome \<times> world" where
  "verify w =
     (Returned, w\<lparr>verified := True, reactions := reactions w @ [''white_check_mark'']\<rparr>)"

subsection \<open>\<^verbatim>\<open>install\<close> (lines 195-325)\<close>

text \<open>
  Lines 209-227. A reference that starts with the GitHub prefix is cut into its path
  components. Any other argument is looked up in the registry: the comprehension over
  \<^verbatim>\<open>verified_packages.items()\<close> keeps the pairs whose key is the argument, which for a
  dictionary is at most one pair, and \<^verbatim>\<open>list(found_package)\<close> is that list of pairs.
\<close>

definition found_package :: "(string \<rightharpoonup> string) \<Rightarrow> string \<Rightarrow> pyval list" where
  "found_package d package = (case d package of None \<Rightarrow> [] | Some url \<Rightarrow> [Tup package url])"

text \<open>
  Lines 229-231. \<^verbatim>\<open>package_info[1]\<close> raises \<^verbatim>\<open>IndexError\<close> on a list shorter than two.
  The condition of line 231 opens with \<^verbatim>\<open>script_settings.safe_mode\<close>. The module binds
  \<^verbatim>\<open>settings\<close>, \<^verbatim>\<open>log\<close>, \<^verbatim>\<open>__version__\<close>, \<^verbatim>\<open>verified\<close>, \<^verbatim>\<open>verified_packages\<close>, its
  classes and functions and the imported names (\<^verbatim>\<open>dataclass\<close> and \<^verbatim>\<open>datafield\<close> among
  them, neither ever used); nothing binds \<^verbatim>\<open>script_settings\<close>. So every execution that
  gets past line 229 raises \<^verbatim>\<open>NameError\<close> at line 231, before \<^verbatim>\<open>verified\<close> is read. Lines
  232-325 are never reached, and the model of \<^verbatim>\<open>install\<close> ends here.
\<close>

definition install_gate :: "env \<Rightarrow> bool \<Rightarrow> pyval list \<Rightarrow> world \<Rightarrow> outcome \<times> world" where
  "install_gate e is_verified package_info w =
     (case package_info of
        p0 # original_name # rest \<Rightarrow> (Raised (NameError ''script_settings''), w)
      | _ \<Rightarrow> (Raised IndexError, w))"

definition install :: "env \<Rightarrow> string \<Rightarrow> world \<Rightarrow> outcome \<times> world" where
  "install e package w =
     (if startswith package ''https://github.com/''
      then install_gate e False
             (map Str (py_split CHR ''/'' (py_replace ''https://github.com/'' [] package))) w
      else if found_package (verified_packages w) package = []
           then (Returned, ctx_send (Text invalid_link_msg) w)
           else install_gate e True (found_package (verified_packages w) package) w)"

subsection \<open>\<^verbatim>\<open>uninstall\<close> (lines 156-178)\<close>

definition uninstall :: "env \<Rightarrow> string \<Rightarrow> world \<Rightarrow> outcome \<times> world" where
  "uninstall e package w =
     (let emb = \<lparr>embed_title = ''Removed '' @ title package,
                 embed_description =
                   ''The '' @ title package @ '' package has been removed from your bot.'',
                 embed_color = ''red'',
                 embed_thumbnail = None,
                 embed_footer = None\<rparr>
      in case rmtree (dir_type e @ ''/packages/'' @ package) w of
           Inl err \<Rightarrow> (Raised err, w)
         | Inr w1 \<Rightarrow>
             (case unload_extension (dir_type e @ ''/packages/'' @ package) w1 of
                (Raised err, w2) \<Rightarrow> (Raised err, w2)
              | (Returned, w2) \<Rightarrow> (Returned, ctx_send (EmbedMsg emb) (tree_sync w2))))"

subsection \<open>Lines 209-246 under a binding of \<^verbatim>\<open>script_settings\<close>\<close>

text \<open>
  The check of line 231 and the reset of lines 245-246 are code of the file that no
  execution of the file reaches. To say how the two work together, the same lines are
  read once more with the global name resolved by a parameter: \<open>None\<close> is the module
  as it stands (the name is unbound), \<open>Some s\<close> a module namespace in which the name
  denotes a settings object \<open>s\<close>. The reading ends at line 246: \<open>Proceeds\<close> marks an
  execution that goes on to line 248, with the flag as line 246 has left it.

  Coroutines of one event loop run one at a time and change over only at an
  \<^verbatim>\<open>await\<close>. Lines 209-246 hold two of them, at lines 223 and 232, each the last action
  before a \<^verbatim>\<open>return\<close>; an execution that passes line 231 meets none before line 246.
  So these lines are one uninterrupted step of an install, and the step is a function
  of the world in which it starts.
\<close>

record Settings =
  safe_mode :: bool

datatype step = Stops outcome | Proceeds

text \<open>
  Lines 242-246: past line 231 a reference that came from the registry has its second
  element replaced by \<^verbatim>\<open>verified_packages[original_name]\<close> (a dictionary whose keys are
  strings has no tuple key), and the flag, if set, is cleared.
\<close>

fun dict_get :: "(string \<rightharpoonup> string) \<Rightarrow> pyval \<Rightarrow> error + string" where
  "dict_get d (Str k) = (case d k of None \<Rightarrow> Inl KeyError | Some v \<Rightarrow> Inr v)"
| "dict_get d (Tup a b) = Inl KeyError"

definition install_gate_with ::
  "Settings option \<Rightarrow> env \<Rightarrow> bool \<Rightarrow> pyval list \<Rightarrow> world \<Rightarrow> step \<times> world" where
  "install_gate_with binding e is_verified package_info w =
     (case package_info of
        p0 # original_name # rest \<Rightarrow>
          (case binding of
             None \<Rightarrow> (Stops (Raised (NameError ''script_settings'')), w)
           | Some script_settings \<Rightarrow>
               if safe_mode script_settings \<and> \<not> verified w \<and> \<not> is_verified
               then (Stops Returned, ctx_send (Text (caution_msg e)) w)
               else
                 (case (if is_verified
                        then map_sum id Str (dict_get (verified_packages w) original_name)
                        else Inr original_name) of
                    Inl err \<Rightarrow> (Stops (Raised err), w)
                  | Inr p1 \<Rightarrow> (Proceeds, if verified w then w\<lparr>verified := False\<rparr> else w)))
      | _ \<Rightarrow> (Stops (Raised IndexError), w))"

definition install_with :: "Settings option \<Rightarrow> env \<Rightarrow> string \<Rightarrow> world \<Rightarrow> step \<times> world" where
  "install_with binding e package w =
     (if startswith package ''https://github.com/''
      then install_gate_with binding e False
             (map Str (py_split CHR ''/'' (py_replace ''https://github.com/'' [] package))) w
      else if found_package (verified_packages w) package = []
           then (Stops Returned, ctx_send (Text invalid_link_msg) w)
           else install_gate_with binding e True (found_package (verified_packages w) package) w)"

text \<open>
  An install step observes the flag as true and consumes it when it starts with the flag
  set and ends with the flag cleared.
\<close>

definition consumes_confirmation :: "Settings option \<Rightarrow> env \<Rightarrow> string \<Rightarrow> world \<Rightarrow> bool" where
  "consumes_confirmation binding e package w =
     (verified w \<and> \<not> verified (snd (install_with binding e package w)))"

subsection \<open>References that reach line 229 with two components\<close>

text \<open>
  A raw \<open>(owner, repository)\<close> reference, as \<^verbatim>\<open>install\<close> reads it: the argument starts
  with the GitHub prefix (line 211) and what is left after removing the prefix splits
  into at least two path components (lines 212 and 229).
\<close>

definition raw_reference :: "string \<Rightarrow> bool" where
  "raw_reference package =
     (startswith package ''https://github.com/'' \<and>
      2 \<le> length (py_split CHR ''/'' (py_replace ''https://github.com/'' [] package)))"

subsection \<open>A concrete scenario\<close>

text \<open>
  The repository \<^verbatim>\<open>acme/widgets\<close> holds a manifest and the file \<^verbatim>\<open>__init__.py\<close>; the
  manifest also lists \<^verbatim>\<open>cog.py\<close>, which the remote side does not have (status 404). A
  second remote side serves a manifest of the same package for the other platform.
  The bot runs in a directory with \<^verbatim>\<open>ballsdex/data\<close> and \<^verbatim>\<open>ballsdex/packages\<close>.
\<close>

definition example_manifest_text :: string where
  "example_manifest_text =
     ''name: widgets'' @ NL @ ''description: Widgets for your bot'' @ NL @
     ''version: 1.0'' @ NL @ ''author: acme'' @ NL @
     ''files:'' @ NL @ ''- __init__.py'' @ NL @ ''- cog.py'' @ NL @
     ''supported:'' @ NL @ ''- ballsdex'' @ NL"

definition other_platform_manifest_text :: string where
  "other_platform_manifest_text =
     ''name: widgets'' @ NL @ ''description: Widgets for your bot'' @ NL @
     ''version: 1.0'' @ NL @ ''author: acme'' @ NL @
     ''files:'' @ NL @ ''- __init__.py'' @ NL @ ''- cog.py'' @ NL @
     ''supported:'' @ NL @ ''- carfigures'' @ NL"

definition example_net :: "string \<Rightarrow> response" where
  "example_net url =
     (if url = ''https://api.github.com/repos/acme/widgets/contents/package.yml''
      then \<lparr>status_code = 200, content = example_manifest_text\<rparr>
      else if url = ''https://api.github.com/repos/acme/widgets/contents/widgets/__init__.py''
      then \<lparr>status_code = 200, content = ''pass''\<rparr>
      else \<lparr>status_code = 404, content = []\<rparr>)"

definition other_platform_net :: "string \<Rightarrow> response" where
  "other_platform_net url =
     (if url = ''https://api.github.com/repos/acme/widgets/contents/package.yml''
      then \<lparr>status_code = 200, content = other_platform_manifest_text\<rparr>
      else example_net url)"

definition example_env :: env where
  "example_env = \<lparr>dir_type = ''ballsdex'', settings_prefix = ''b.'', net = example_net\<rparr>"

definition other_platform_env :: env where
  "other_platform_env = example_env\<lparr>net := other_platform_net\<rparr>"

definition example_world :: world where
  "example_world =
     \<lparr>verified = False, verified_packages = Map.empty,
      fs = [''ballsdex'' \<mapsto> Dir, ''ballsdex/data'' \<mapsto> Dir, ''ballsdex/packages'' \<mapsto> Dir],
      extensions = {}, bot_calls = [], sent = [], reactions = [], fetches = []\<rparr>"

definition registry_world :: world where
  "registry_world =
     example_world\<lparr>verified_packages := [''widgets'' \<mapsto> ''https://github.com/acme/widgets'']\<rparr>"

definition confirmed_world :: world where
  "confirmed_world = snd (verify example_world)"

text \<open>
  A world in which the package is installed: its directory holds \<^verbatim>\<open>__init__.py\<close>, its
  manifest is stored and its module is loaded under the name of line 311.
\<close>

definition installed_world :: world where
  "installed_world =
     example_world
       \<lparr>fs := (fs example_world)
          (''ballsdex/data/widgets.yml'' \<mapsto> File example_manifest_text,
           ''ballsdex/packages/widgets'' \<mapsto> Dir,
           ''ballsdex/packages/widgets/__init__.py'' \<mapsto> File ''pass''),
        extensions := {''ballsdex.packages.widgets''},
        bot_calls := [Load ''ballsdex.packages.widgets'']\<rparr>"

section \<open>Properties\<close>

subsection \<open>The scenario's references\<close>

lemma raw_reference_widgets: "raw_reference ''https://github.com/acme/widgets''"
  by (simp add: raw_reference_def startswith_def)

lemma bare_name_widgets: "\<not> startswith ''widgets'' ''https://github.com/''"
  by (simp add: startswith_def)

lemma raw_reference_split:
  assumes "raw_reference package"
  obtains owner repo rest where
    "py_split CHR ''/'' (py_replace ''https://github.com/'' [] package) = owner # repo # rest"
  using assms by (auto simp: raw_reference_def Suc_le_length_iff numeral_2_eq_2)

subsection \<open>The three ways out of \<^verbatim>\<open>install\<close>\<close>

text \<open>A raw reference gets past line 229 and stops at line 231, whatever the flag is.\<close>

lemma install_raw_reference:
  assumes "raw_reference package"
  shows "install e package w = (Raised (NameError ''script_settings''), w)"
proof -
  from assms obtain owner repo rest where
    "py_split CHR ''/'' (py_replace ''https://github.com/'' [] package) = owner # repo # rest"
    by (rule raw_reference_split)
  with assms show ?thesis
    by (simp add: install_def raw_reference_def install_gate_def)
qed

lemma install_invalid_link:
  assumes "\<not> startswith package ''https://github.com/''"
    and "verified_packages w package = None"
  shows "install e package w = (Returned, w\<lparr>sent := sent w @ [Text invalid_link_msg]\<rparr>)"
  using assms by (simp add: install_def found_package_def ctx_send_def)

text \<open>
  A bare name that the registry knows stops at line 229: \<^verbatim>\<open>list(found_package)\<close> is a
  one-element list of pairs, and line 229 indexes its second element.
\<close>

lemma install_registry_name:
  assumes "\<not> startswith package ''https://github.com/''"
    and "verified_packages w package = Some url"
  shows "install e package w = (Raised IndexError, w)"
  using assms by (simp add: install_def found_package_def install_gate_def)

text \<open>
  Claim C1 says that an install of a raw \<open>(owner, repository)\<close> reference, with the
  confirmation flag false and safe mode on, sends a caution message and returns
  without a request and without touching the flag. On the code such an install raises
  \<^verbatim>\<open>NameError\<close> at line 231, where it reads the unbound name \<^verbatim>\<open>script_settings\<close>: the
  world is unchanged (no request, flag as it was), and no caution message is sent.
\<close>

theorem unverified_raw_install_raises:
  "raw_reference ''https://github.com/acme/widgets'' \<and> \<not> verified example_world \<and>
   install example_env ''https://github.com/acme/widgets'' example_world =
     (Raised (NameError ''script_settings''), example_world) \<and>
   sent (snd (install example_env ''https://github.com/acme/widgets'' example_world)) = [] \<and>
   fetches (snd (install example_env ''https://github.com/acme/widgets'' example_world)) = []"
  by (simp add: raw_reference_def startswith_def install_def install_gate_def example_world_def)

text \<open>
  Claim C10. An install of a bare name (an argument without the GitHub prefix) that the
  registry does not hold replies with the invalid-link message and returns: nothing
  else of the world changes, so there is no request and no file write, and the
  confirmation flag keeps its value.
\<close>

theorem unknown_bare_name_rejected:
  assumes "\<not> startswith package ''https://github.com/''"
    and "verified_packages w package = None"
  shows "install e package w = (Returned, w\<lparr>sent := sent w @ [Text invalid_link_msg]\<rparr>) \<and>
         fetches (snd (install e package w)) = fetches w \<and>
         fs (snd (install e package w)) = fs w \<and>
         verified (snd (install e package w)) = verified w"
  using install_invalid_link [OF assms] by simp

theorem unknown_bare_name_rejected_witness:
  "\<not> startswith ''widgets'' ''https://github.com/'' \<and>
   verified_packages confirmed_world ''widgets'' = None \<and>
   install example_env ''widgets'' confirmed_world =
     (Returned, confirmed_world\<lparr>sent := sent confirmed_world @ [Text invalid_link_msg]\<rparr>) \<and>
   verified (snd (install example_env ''widgets'' confirmed_world))"
proof -
  have h1: "\<not> startswith ''widgets'' ''https://github.com/''"
    by (rule bare_name_widgets)
  have h2: "verified_packages confirmed_world ''widgets'' = None"
    by (simp add: confirmed_world_def verify_def example_world_def)
  have h3: "verified confirmed_world"
    by (simp add: confirmed_world_def verify_def)
  show ?thesis
    using unknown_bare_name_rejected [OF h1 h2, of example_env] h1 h2 h3 by simp
qed

text \<open>
  Claim C4 says that a bare name found in the registry passes the trust gate and that the
  manifest is fetched from the registry's reference. On the code the install of such a
  name raises \<^verbatim>\<open>IndexError\<close> at line 229, before the trust gate and before any request: here
  with the registry entry \<^verbatim>\<open>widgets\<close>.
\<close>

theorem registry_name_install_raises:
  "verified_packages registry_world ''widgets'' = Some ''https://github.com/acme/widgets'' \<and>
   install example_env ''widgets'' registry_world = (Raised IndexError, registry_world) \<and>
   fetches (snd (install example_env ''widgets'' registry_world)) = []"
  by (simp add: install_def startswith_def found_package_def install_gate_def
      registry_world_def example_world_def)

text \<open>
  Claim C5 says that the registry build logs a warning and returns on a non-success
  status and fills the registry on success. On the code it raises \<^verbatim>\<open>NameError\<close> right
  after the request, here on a response with status 404; the registry is left as it
  was, and it would be so on status 200 too.
\<close>

theorem verify_packages_raises:
  "status_code
     (net example_env ''https://api.github.com/repos/Dotsian/DexPack/contents/verified.txt'') = 404 \<and>
   verify_packages example_env example_world =
     (Raised (NameError ''r''),
      example_world\<lparr>fetches :=
        [''https://api.github.com/repos/Dotsian/DexPack/contents/verified.txt'']\<rparr>)"
  by (simp add: verify_packages_def request_get_def example_env_def example_net_def
      example_world_def)

subsection \<open>The confirmation flag\<close>

text \<open>
  Claim C2, as amended. After \<^verbatim>\<open>verify\<close> has set the flag, an install attempt that is
  turned away as an invalid link (a bare name that the registry does not hold) replies
  with the invalid-link message, makes no request and leaves the flag set: the return
  of line 224 comes before the reset of lines 245-246. The claim as written promises
  the reset for every attempt, whatever its outcome, which the counterexample below
  refutes.
\<close>

theorem confirmation_kept_by_rejected_attempt:
  assumes "\<not> startswith package ''https://github.com/''"
    and "verified_packages w package = None"
  shows "verified (snd (verify w)) \<and>
         install e package (snd (verify w)) =
           (Returned, (snd (verify w))\<lparr>sent := sent w @ [Text invalid_link_msg]\<rparr>) \<and>
         verified (snd (install e package (snd (verify w)))) \<and>
         fetches (snd (install e package (snd (verify w)))) = fetches w"
proof -
  have reg: "verified_packages (snd (verify w)) package = None"
    using assms(2) by (simp add: verify_def)
  have v: "verified (snd (verify w))" "sent (snd (verify w)) = sent w"
    "fetches (snd (verify w)) = fetches w"
    by (simp_all add: verify_def)
  show ?thesis
    using install_invalid_link [OF assms(1) reg, of e] v by simp
qed

theorem confirmation_kept_by_rejected_attempt_witness:
  "\<not> startswith ''gadgets'' ''https://github.com/'' \<and>
   verified_packages registry_world ''gadgets'' = None \<and>
   verified (snd (verify registry_world)) \<and>
   verified (snd (install example_env ''gadgets'' (snd (verify registry_world)))) \<and>
   fetches (snd (install example_env ''gadgets'' (snd (verify registry_world)))) = []"
proof -
  have h1: "\<not> startswith ''gadgets'' ''https://github.com/''"
    by (simp add: startswith_def)
  have h2: "verified_packages registry_world ''gadgets'' = None"
    by (simp add: registry_world_def example_world_def)
  have f: "fetches registry_world = []"
    by (simp add: registry_world_def example_world_def)
  show ?thesis
    using confirmation_kept_by_rejected_attempt [OF h1 h2, of example_env, unfolded f] h1 h2
    by blast
qed

text \<open>
  An install of a bare name that the registry does not hold returns at line 224, before
  line 246: the flag that \<^verbatim>\<open>verify\<close> set is still set after this install attempt.
\<close>

theorem confirmation_kept_by_invalid_link:
  "verified (snd (verify example_world)) \<and>
   install example_env ''widgets'' (snd (verify example_world)) =
     (Returned, (snd (verify example_world))\<lparr>sent := [Text invalid_link_msg]\<rparr>) \<and>
   verified (snd (install example_env ''widgets'' (snd (verify example_world))))"
  by (simp add: install_def startswith_def found_package_def verify_def ctx_send_def example_world_def)

subsection \<open>Installs that the claims expect to go on\<close>

text \<open>
  Claim C6 says that an install whose manifest lists \<open>N\<close> files of which \<open>K\<close> fail to
  download writes the other \<open>N - K\<close> files, sends \<open>K\<close> failure reports and goes on to
  load the module. In the scenario the manifest lists two files, one of which the
  remote side answers with status 404, and the install has been confirmed. On the code
  the install raises \<^verbatim>\<open>NameError\<close> at line 231: it requests nothing, writes no file,
  sends no report and asks for no load. Lines 294-313, which are written to do what
  the claim says, are never reached.
\<close>

theorem listed_files_install_raises:
  "status_code (net example_env
     ''https://api.github.com/repos/acme/widgets/contents/package.yml'') = 200 \<and>
   content (net example_env
     ''https://api.github.com/repos/acme/widgets/contents/package.yml'') = example_manifest_text \<and>
   status_code (net example_env
     ''https://api.github.com/repos/acme/widgets/contents/widgets/__init__.py'') = 200 \<and>
   status_code (net example_env
     ''https://api.github.com/repos/acme/widgets/contents/widgets/cog.py'') = 404 \<and>
   verified confirmed_world \<and>
   install example_env ''https://github.com/acme/widgets'' confirmed_world =
     (Raised (NameError ''script_settings''), confirmed_world) \<and>
   fetches (snd (install example_env ''https://github.com/acme/widgets'' confirmed_world)) = [] \<and>
   sent (snd (install example_env ''https://github.com/acme/widgets'' confirmed_world)) = [] \<and>
   bot_calls (snd (install example_env ''https://github.com/acme/widgets'' confirmed_world)) = [] \<and>
   fs (snd (install example_env ''https://github.com/acme/widgets'' confirmed_world))
     ''ballsdex/packages/widgets/__init__.py'' = None"
  by (simp add: install_def startswith_def install_gate_def confirmed_world_def verify_def
      example_world_def example_env_def example_net_def)

text \<open>
  Claim C7 says that an install whose manifest does not support the host aborts with an
  unsupported-platform report before any file is written. In the scenario the remote
  side serves a manifest for the other platform and the install has been confirmed. On
  the code the install raises \<^verbatim>\<open>NameError\<close> at line 231: no file is written, but the
  manifest is never requested and no report is sent. Lines 263-265, which are written
  to send the report, are never reached.
\<close>

theorem unsupported_platform_install_raises:
  "status_code (net other_platform_env
     ''https://api.github.com/repos/acme/widgets/contents/package.yml'') = 200 \<and>
   content (net other_platform_env
     ''https://api.github.com/repos/acme/widgets/contents/package.yml'') =
     other_platform_manifest_text \<and>
   dir_type other_platform_env = ''ballsdex'' \<and>
   verified confirmed_world \<and>
   install other_platform_env ''https://github.com/acme/widgets'' confirmed_world =
     (Raised (NameError ''script_settings''), confirmed_world) \<and>
   fetches (snd (install other_platform_env ''https://github.com/acme/widgets'' confirmed_world)) = [] \<and>
   sent (snd (install other_platform_env ''https://github.com/acme/widgets'' confirmed_world)) = []"
  by (simp add: install_def startswith_def install_gate_def confirmed_world_def verify_def
      example_world_def other_platform_env_def example_env_def other_platform_net_def)

subsection \<open>Two installs on one event loop\<close>

text \<open>With the name unbound the step of lines 209-246 is what \<^verbatim>\<open>install\<close> does.\<close>

lemma install_with_None:
  "install_with None e package w = (Stops (fst (install e package w)), snd (install e package w))"
  by (simp add: install_with_def install_def install_gate_with_def install_gate_def
      split: list.split)

text \<open>The step leaves the flag set exactly when it starts with it set and does not proceed.\<close>

lemma install_gate_with_flag:
  "verified (snd (install_gate_with binding e is_verified package_info w)) =
     (verified w \<and> fst (install_gate_with binding e is_verified package_info w) \<noteq> Proceeds)"
  by (auto simp: install_gate_with_def ctx_send_def split: list.split option.split sum.split)

lemma install_with_flag:
  "verified (snd (install_with binding e package w)) =
     (verified w \<and> fst (install_with binding e package w) \<noteq> Proceeds)"
  by (simp add: install_with_def install_gate_with_flag ctx_send_def)

lemma consumes_confirmation_iff:
  "consumes_confirmation binding e package w =
     (verified w \<and> fst (install_with binding e package w) = Proceeds)"
  by (auto simp: consumes_confirmation_def install_with_flag)


text \<open>On the module as it stands no install step consumes a confirmation.\<close>

lemma unbound_never_consumes: "\<not> consumes_confirmation None e package w"
  by (simp add: consumes_confirmation_iff install_with_None)



subsection \<open>\<^verbatim>\<open>uninstall\<close>\<close>

text \<open>
  Claim C8 says that an uninstall of a package whose directory does not exist returns a
  "not found" outcome, changes nothing on disk and does not crash. On the code
  \<^verbatim>\<open>rmtree\<close> (line 173) raises \<^verbatim>\<open>FileNotFoundError\<close>, which nothing catches: the world is
  as it was (nothing on disk has changed, no unload was requested), but the command
  does not return and sends no reply.
\<close>

theorem uninstall_missing_directory_raises:
  assumes "fs w (dir_type e @ ''/packages/'' @ package) = None"
  shows "uninstall e package w = (Raised FileNotFoundError, w)"
  using assms by (simp add: uninstall_def rmtree_def)

theorem uninstall_missing_directory_raises_witness:
  "fs installed_world (dir_type example_env @ ''/packages/'' @ ''gadgets'') = None \<and>
   uninstall example_env ''gadgets'' installed_world = (Raised FileNotFoundError, installed_world)"
proof -
  have h: "fs installed_world (dir_type example_env @ ''/packages/'' @ ''gadgets'') = None"
    by (simp add: installed_world_def example_world_def example_env_def)
  show ?thesis
    using uninstall_missing_directory_raises [OF h] h by simp
qed

text \<open>In the scenario, for a package that was never installed: no reply is sent.\<close>

lemma uninstall_missing_directory_no_report:
  "fs example_world ''ballsdex/packages/widgets'' = None \<and>
   uninstall example_env ''widgets'' example_world = (Raised FileNotFoundError, example_world) \<and>
   sent (snd (uninstall example_env ''widgets'' example_world)) = []"
  by (simp add: uninstall_def rmtree_def example_env_def example_world_def)

text \<open>
  The name that line 175 unloads is never a name that line 311 loads: after the common
  \<^verbatim>\<open>dir_type\<close> the one goes on with a slash, the other with a dot.
\<close>

lemma unload_name_differs: "dir_type e @ ''/packages/'' @ p \<noteq> dir_type e @ ''.packages.'' @ n"
  by simp

text \<open>
  Whenever the package directory exists and the bot has no extension named like the
  directory path, uninstall removes the directory, fails to unload and leaves every
  loaded module loaded.
\<close>

lemma uninstall_present_directory:
  assumes "fs w (dir_type e @ ''/packages/'' @ package) = Some Dir"
    and "dir_type e @ ''/packages/'' @ package \<notin> extensions w"
  shows "fst (uninstall e package w) = Raised (ExtensionNotLoaded (dir_type e @ ''/packages/'' @ package))"
    and "extensions (snd (uninstall e package w)) = extensions w"
    and "fs (snd (uninstall e package w)) (dir_type e @ ''/packages/'' @ package) = None"
    and "sent (snd (uninstall e package w)) = sent w"
  using assms by (simp_all add: uninstall_def rmtree_def unload_extension_def Let_def)

text \<open>
  Claim C9 says that uninstall removes the directory and unloads the module under the
  name that install loaded it under. Install loads \<^verbatim>\<open>ballsdex.packages.widgets\<close> (line
  311); uninstall asks to unload \<^verbatim>\<open>ballsdex/packages/widgets\<close> (line 175), the path it
  has just removed. No extension has that name, so the request raises
  \<^verbatim>\<open>ExtensionNotLoaded\<close>: the directory is gone and the module is still loaded.
\<close>

theorem uninstall_unloads_other_name:
  "''ballsdex.packages.widgets'' \<in> extensions installed_world \<and>
   bot_calls installed_world = [Load ''ballsdex.packages.widgets''] \<and>
   fst (uninstall example_env ''widgets'' installed_world) =
     Raised (ExtensionNotLoaded ''ballsdex/packages/widgets'') \<and>
   bot_calls (snd (uninstall example_env ''widgets'' installed_world)) =
     [Load ''ballsdex.packages.widgets'', Unload ''ballsdex/packages/widgets''] \<and>
   ''ballsdex.packages.widgets'' \<in> extensions (snd (uninstall example_env ''widgets'' installed_world)) \<and>
   fs (snd (uninstall example_env ''widgets'' installed_world)) ''ballsdex/packages/widgets'' = None \<and>
   fs (snd (uninstall example_env ''widgets'' installed_world))
     ''ballsdex/packages/widgets/__init__.py'' = None"
  by (simp add: installed_world_def example_world_def uninstall_def rmtree_def
      unload_extension_def example_env_def Let_def)

end
